theory Spec2Isabelle
  imports Complex_Main
begin

section \<open>Online incremental forecasting engine (src/lib/online\_forecasting.py)\<close>

text \<open>
  Numbers. The source computes with Python floats and numpy float64 arrays. They are
  embedded as \<^typ>\<open>real\<close>: every definition below is the exact-arithmetic reading of the
  source expression it embeds. Rounding, infinities and NaN are outside the embedding.
\<close>

type_synonym vec = "real list"
type_synonym matrix = "real list list"

datatype error = LinAlgError | ValueError | KeyError | IndexError | NotFittedError

subsection \<open>numpy functions used by the source\<close>

definition np_clip :: "real \<Rightarrow> real \<Rightarrow> real \<Rightarrow> real" where
  \<comment> \<open>\<open>np.clip(x, lo, hi)\<close> is \<open>minimum(maximum(x, lo), hi)\<close>.\<close>
  "np_clip x lo hi = min (max x lo) hi"

definition np_mean :: "vec \<Rightarrow> real" where
  \<comment> \<open>\<open>np.mean\<close> of a non-empty 1-D array (on an empty one numpy yields NaN).\<close>
  "np_mean xs = sum_list xs / real (length xs)"

definition np_diff :: "vec \<Rightarrow> vec" where
  \<comment> \<open>\<open>np.diff(xs)[j] = xs[j+1] - xs[j]\<close>.\<close>
  "np_diff xs = map (\<lambda>(a, b). b - a) (zip xs (tl xs))"

definition np_std :: "vec \<Rightarrow> real" where
  \<comment> \<open>\<open>np.std\<close>: population standard deviation (ddof = 0).\<close>
  "np_std xs = sqrt (np_mean (map (\<lambda>x. (x - np_mean xs)\<^sup>2) xs))"

definition last_n :: "nat \<Rightarrow> 'a list \<Rightarrow> 'a list" where
  \<comment> \<open>The slice \<open>xs[-n:]\<close> for \<open>n > 0\<close>.\<close>
  "last_n n xs = drop (length xs - n) xs"

subsection \<open>Service configuration (\<open>OnlineForecastingService.__init__\<close>)\<close>

definition sequence_length :: nat where
  "sequence_length = 20"

definition forecast_horizon :: nat where
  "forecast_horizon = 5"

subsection \<open>Forecast points\<close>

text \<open>
  One element of the returned list: the dict with keys \<open>minute\<close>, \<open>forecast_price\<close> and
  \<open>timestamp\<close>. The timestamp is \<open>datetime.now() + timedelta(minutes=i+1)\<close>, read from the
  wall clock once per loop iteration. The clock is an explicit argument \<open>now\<close>: \<open>now i\<close> is
  the reading (in microseconds) taken in iteration \<open>i\<close>. The ISO-8601 rendering of the
  timestamp is not modelled.
\<close>

record forecast_point =
  minute :: nat
  forecast_price :: real
  timestamp :: int

definition minutes_delta :: "nat \<Rightarrow> int" where
  \<comment> \<open>\<open>timedelta(minutes=m)\<close> in microseconds.\<close>
  "minutes_delta m = 60000000 * int m"

subsection \<open>\<open>simple_trend_forecast\<close>\<close>

text \<open>The flat branch (lines 423-432): fewer than three observations.\<close>

fun flat_loop :: "real \<Rightarrow> (nat \<Rightarrow> int) \<Rightarrow> nat list \<Rightarrow> forecast_point list" where
  "flat_loop current_price now [] = []"
| "flat_loop current_price now (i # is) =
     \<lparr>minute = i + 1, forecast_price = current_price,
      timestamp = now i + minutes_delta (i + 1)\<rparr> # flat_loop current_price now is"

text \<open>The loop of lines 445-463; \<open>last_price\<close> is the loop-carried variable.\<close>

fun trend_loop :: "real \<Rightarrow> real \<Rightarrow> (nat \<Rightarrow> int) \<Rightarrow> nat list \<Rightarrow> real \<Rightarrow> forecast_point list" where
  "trend_loop current_price avg_change now [] last_price = []"
| "trend_loop current_price avg_change now (i # is) last_price =
     (let dampening = 0.7 ^ i;
          change = avg_change * dampening;
          forecast_price = np_clip (last_price + change)
                             (current_price * 0.93) (current_price * 1.07)
      in \<lparr>minute = i + 1, forecast_price = forecast_price,
          timestamp = now i + minutes_delta (i + 1)\<rparr>
         # trend_loop current_price avg_change now is forecast_price)"

definition trend_avg_change :: "real \<Rightarrow> vec \<Rightarrow> real" where
  \<comment> \<open>Lines 435-440: the clipped mean of the recent successive differences.\<close>
  "trend_avg_change current_price recent_prices =
     (let recent_changes = (if length recent_prices \<ge> 10
                            then np_diff (last_n 10 recent_prices)
                            else np_diff recent_prices);
          avg_change = np_mean recent_changes;
          max_change = current_price * 0.005
      in np_clip avg_change (- max_change) max_change)"

definition simple_trend_forecast :: "(nat \<Rightarrow> int) \<Rightarrow> real \<Rightarrow> vec \<Rightarrow> forecast_point list" where
  "simple_trend_forecast now current_price recent_prices =
     (if length recent_prices < 3
      then flat_loop current_price now [0..<forecast_horizon]
      else trend_loop current_price (trend_avg_change current_price recent_prices) now
             [0..<forecast_horizon] current_price)"

subsection \<open>Model-based horizon expansion (\<open>forecast_prices\<close>, lines 381-419)\<close>

fun model_loop :: "real \<Rightarrow> real \<Rightarrow> (nat \<Rightarrow> int) \<Rightarrow> nat list \<Rightarrow> real \<Rightarrow> forecast_point list" where
  "model_loop current_price base_trend now [] last_price = []"
| "model_loop current_price base_trend now (i # is) last_price =
     (let dampening = 0.3 ^ (i + 1);
          trend_factor = np_clip (base_trend * dampening) (- 0.005) 0.005;
          forecast_price = np_clip (last_price * (1 + trend_factor))
                             (current_price * 0.93) (current_price * 1.07)
      in \<lparr>minute = i + 1, forecast_price = forecast_price,
          timestamp = now i + minutes_delta (i + 1)\<rparr>
         # model_loop current_price base_trend now is forecast_price)"

definition model_horizon :: "(nat \<Rightarrow> int) \<Rightarrow> real \<Rightarrow> real \<Rightarrow> forecast_point list" where
  "model_horizon now current_price next_price =
     (let base_trend = (next_price - current_price) / current_price
      in model_loop current_price base_trend now [0..<forecast_horizon] current_price)"

subsection \<open>\<open>OnlineLinearRegression\<close>\<close>

text \<open>
  \<open>__init__\<close> sets \<open>weights\<close>, \<open>n_features\<close>, \<open>sum_xx\<close> and \<open>sum_xy\<close> to \<open>None\<close>, and the first
  \<open>partial_fit\<close> sets all four; nothing else writes them. The four fields are therefore one
  optional group \<open>params\<close>: \<open>None\<close> is the state in which \<open>self.weights is None\<close>.
\<close>

record fitted =
  weights :: vec
  n_features :: nat
  sum_xx :: matrix
  sum_xy :: vec

record regressor =
  learning_rate :: real
  regularization :: real
  bias :: real
  n_samples :: nat
  params :: "fitted option"

definition new_regressor :: "real \<Rightarrow> real \<Rightarrow> regressor" where
  "new_regressor lr reg =
     \<lparr>learning_rate = lr, regularization = reg, bias = 0, n_samples = 0, params = None\<rparr>"

definition dot :: "vec \<Rightarrow> vec \<Rightarrow> real" where
  "dot u v = sum_list (map (\<lambda>(a, b). a * b) (zip u v))"

definition matvec :: "matrix \<Rightarrow> vec \<Rightarrow> error + vec" where
  \<comment> \<open>\<open>X @ w\<close> for a 2-D \<open>X\<close> and a 1-D \<open>w\<close>; numpy raises ValueError on a shape mismatch.\<close>
  "matvec X w = (if \<forall>row \<in> set X. length row = length w
                 then Inr (map (\<lambda>row. dot row w) X) else Inl ValueError)"

definition predict :: "regressor \<Rightarrow> matrix \<Rightarrow> error + vec" where
  \<comment> \<open>Lines 78-87, for a 2-D input \<open>X\<close> (a list of rows).\<close>
  "predict r X =
     (case params r of
        None \<Rightarrow> Inr (replicate (length X) 0)
      | Some f \<Rightarrow>
          (case matvec X (weights f) of
             Inl e \<Rightarrow> Inl e
           | Inr p \<Rightarrow> Inr (map (\<lambda>v. v + bias r) p)))"

text \<open>
  \<open>np.linalg.solve\<close> and \<open>np.linalg.pinv\<close> belong to numpy, not to this repository: they are
  parameters of the model. \<open>Inl LinAlgError\<close> is the exception the source catches.
\<close>

record linalg =
  solve :: "matrix \<Rightarrow> vec \<Rightarrow> error + vec"
  pinv :: "matrix \<Rightarrow> error + matrix"

definition xtx :: "matrix \<Rightarrow> matrix" where
  \<comment> \<open>\<open>X.T @ X\<close> for a non-empty 2-D \<open>X\<close>.\<close>
  "xtx X = (let cols = transpose X in map (\<lambda>c. map (\<lambda>c'. dot c c') cols) cols)"

definition xty :: "matrix \<Rightarrow> vec \<Rightarrow> vec" where
  \<comment> \<open>\<open>X.T @ y\<close> for a non-empty 2-D \<open>X\<close> with \<open>len(y) = len(X)\<close>.\<close>
  "xty X y = map (\<lambda>c. dot c y) (transpose X)"

definition add_eye :: "matrix \<Rightarrow> real \<Rightarrow> matrix" where
  \<comment> \<open>\<open>S + c * np.eye(n)\<close> for an \<open>n \<times> n\<close> matrix \<open>S\<close>.\<close>
  "add_eye S c =
     map (\<lambda>(j, row). map (\<lambda>(k, v). if j = k then v + c else v) (zip [0..<length row] row))
         (zip [0..<length S] S)"

definition partial_fit :: "linalg \<Rightarrow> regressor \<Rightarrow> matrix \<Rightarrow> vec \<Rightarrow> error option \<times> regressor" where
  \<comment> \<open>Lines 40-76, for a non-empty 2-D \<open>X\<close> (rows of one length) and a 1-D \<open>y\<close>, as every
      caller passes. The result is the exception raised, if any, and the state left behind.
      In-place \<open>+=\<close> broadcasts a one-column batch into wider accumulators, as numpy does.\<close>
  "partial_fit la r X y =
     (let n = length X; d = length (hd X);
          f0 = (case params r of
                  None \<Rightarrow> \<lparr>weights = replicate d 0, n_features = d,
                            sum_xx = replicate d (replicate d 0), sum_xy = replicate d 0\<rparr>
                | Some f \<Rightarrow> f);
          r0 = r\<lparr>params := Some f0\<rparr>;
          nf = n_features f0
      in if d \<noteq> nf \<and> d \<noteq> 1 then (Some ValueError, r0)
         else
           let xx = xtx X;
               sxx = (if d = nf then map (\<lambda>(a, b). map (\<lambda>(u, v). u + v) (zip a b)) (zip (sum_xx f0) xx)
                      else map (map (\<lambda>u. u + hd (hd xx))) (sum_xx f0));
               f1 = f0\<lparr>sum_xx := sxx\<rparr>
           in if length y \<noteq> n then (Some ValueError, r\<lparr>params := Some f1\<rparr>)
              else
                let xy = xty X y;
                    sxy = (if d = nf then map (\<lambda>(u, v). u + v) (zip (sum_xy f0) xy)
                           else map (\<lambda>u. u + hd xy) (sum_xy f0));
                    f2 = f1\<lparr>sum_xy := sxy\<rparr>;
                    r2 = r\<lparr>params := Some f2, n_samples := n_samples r + n\<rparr>;
                    solved =
                      (case solve la (add_eye sxx (regularization r)) sxy of
                         Inr w \<Rightarrow> Inr w
                       | Inl LinAlgError \<Rightarrow>
                           (case pinv la (add_eye sxx (regularization r + 1 / 1000000)) of
                              Inl e \<Rightarrow> Inl e
                            | Inr P \<Rightarrow> matvec P sxy)
                       | Inl e \<Rightarrow> Inl e)
                in case solved of
                     Inl e \<Rightarrow> (Some e, r2)
                   | Inr w \<Rightarrow>
                       let r3 = r2\<lparr>params := Some (f2\<lparr>weights := w\<rparr>)\<rparr>
                       in (case matvec X w of
                             Inl e \<Rightarrow> (Some e, r3)
                           | Inr predictions \<Rightarrow>
                               let residuals = map (\<lambda>(a, b). a - b) (zip y predictions)
                               in (None, r3\<lparr>bias := np_mean residuals\<rparr>)))"

subsection \<open>The feature scaler\<close>

text \<open>
  \<open>StandardScaler\<close> belongs to scikit-learn. Its state is a type parameter and its
  operations are parameters; each may raise. \<open>sc_fitted\<close> is the test
  \<open>hasattr(scaler, 'mean_') and scaler.mean_ is not None\<close>.
\<close>

record 'sc scaler_api =
  sc_new :: 'sc
  sc_fitted :: "'sc \<Rightarrow> bool"
  sc_partial_fit :: "'sc \<Rightarrow> matrix \<Rightarrow> error + 'sc"
  sc_fit_transform :: "'sc \<Rightarrow> matrix \<Rightarrow> error + 'sc \<times> matrix"
  sc_transform :: "'sc \<Rightarrow> matrix \<Rightarrow> error + matrix"

subsection \<open>Per-symbol state of \<open>OnlineForecastingService\<close>\<close>

text \<open>
  The three dictionaries of the service. \<open>quiet_mode\<close> only switches printing and the
  MinIO and Spark handles are not used by the functions embedded here.
\<close>

record 'sc service =
  models :: "string \<rightharpoonup> regressor"
  scalers :: "string \<rightharpoonup> 'sc"
  price_history :: "string \<rightharpoonup> real list"

subsection \<open>\<open>train_incremental_model\<close> (lines 261-287)\<close>

text \<open>
  The function has no \<open>try\<close>: an exception of the scaler or of the regressor leaves it at
  once. The result is the exception, if any, with the service state at that moment. A
  scaler operation that raises is taken to leave the scaler as it was.
\<close>

definition ensure_models :: "'sc scaler_api \<Rightarrow> 'sc service \<Rightarrow> string \<Rightarrow> 'sc service" where
  \<comment> \<open>Lines 263-270: the entries of a symbol are created on its first training call.
      The new \<open>deque(maxlen=100)\<close> is the empty list.\<close>
  "ensure_models api s coin_id =
     (if models s coin_id = None
      then s\<lparr>models := (models s)(coin_id \<mapsto> new_regressor 0.001 0.01),
             scalers := (scalers s)(coin_id \<mapsto> sc_new api),
             price_history := (price_history s)(coin_id \<mapsto> [])\<rparr>
      else s)"

definition scale_features :: "'sc scaler_api \<Rightarrow> 'sc \<Rightarrow> matrix \<Rightarrow> (error + matrix) \<times> 'sc" where
  \<comment> \<open>Lines 273-286, the scaler calls of either branch: the scaled features or the
      exception, and the scaler state left behind.\<close>
  "scale_features api sc features =
     (if length features = 1
      then (case sc_partial_fit api sc features of
              Inl e \<Rightarrow> (Inl e, sc)
            | Inr sc1 \<Rightarrow> (sc_transform api sc1 features, sc1))
      else if \<not> sc_fitted api sc
      then (case sc_fit_transform api sc features of
              Inl e \<Rightarrow> (Inl e, sc)
            | Inr (sc1, features_scaled) \<Rightarrow> (Inr features_scaled, sc1))
      else (case sc_partial_fit api sc features of
              Inl e \<Rightarrow> (Inl e, sc)
            | Inr sc1 \<Rightarrow> (sc_transform api sc1 features, sc1)))"

definition train_incremental_model ::
  "'sc scaler_api \<Rightarrow> linalg \<Rightarrow> 'sc service \<Rightarrow> string \<Rightarrow> matrix \<Rightarrow> vec
     \<Rightarrow> error option \<times> 'sc service" where
  "train_incremental_model api la s coin_id features targets =
     (let s1 = ensure_models api s coin_id
      in case scalers s1 coin_id of
           None \<Rightarrow> (Some KeyError, s1)
         | Some sc \<Rightarrow>
             let scaled = scale_features api sc features;
                 s2 = s1\<lparr>scalers := (scalers s1)(coin_id \<mapsto> snd scaled)\<rparr>
             in (case fst scaled of
                   Inl e \<Rightarrow> (Some e, s2)
                 | Inr features_scaled \<Rightarrow>
                     (case models s2 coin_id of
                        None \<Rightarrow> (Some KeyError, s2)
                      | Some m \<Rightarrow>
                          let fit = partial_fit la m features_scaled targets
                          in (fst fit,
                              s2\<lparr>models := (models s2)(coin_id \<mapsto> snd fit)\<rparr>))))"

subsection \<open>\<open>forecast_prices\<close> (lines 296-419)\<close>

definition inference_features :: "real \<Rightarrow> vec \<Rightarrow> vec" where
  \<comment> \<open>Lines 306-337. Exact for \<open>current_price \<noteq> 0\<close> and a non-empty history.\<close>
  "inference_features current_price recent_prices =
     (let sequence = (if length recent_prices \<ge> 30 then last_n 30 recent_prices
                      else recent_prices);
          price_mean = np_mean sequence;
          price_std = np_std sequence;
          short_trend = (if length sequence \<ge> 5 then np_mean (np_diff (last_n 5 sequence))
                         else 0);
          medium_trend = (if length sequence \<ge> 15 then np_mean (np_diff (last_n 15 sequence))
                          else short_trend);
          padded = (if length sequence < sequence_length
                    then replicate (sequence_length - length sequence) current_price @ sequence
                    else last_n sequence_length sequence)
      in map (\<lambda>p. p / current_price) padded
         @ [1.0, short_trend / current_price, medium_trend / current_price,
            price_mean / current_price, price_std / current_price])"

definition model_prediction ::
  "'sc scaler_api \<Rightarrow> 'sc service \<Rightarrow> string \<Rightarrow> real \<Rightarrow> vec \<Rightarrow> error + real" where
  \<comment> \<open>Lines 344-345, the calls inside \<open>try\<close>: \<open>Inl\<close> is any exception they raise.\<close>
  "model_prediction api s coin_id current_price recent_prices =
     (case scalers s coin_id of
        None \<Rightarrow> Inl KeyError
      | Some sc \<Rightarrow>
          (case sc_transform api sc [inference_features current_price recent_prices] of
             Inl e \<Rightarrow> Inl e
           | Inr feature_vector_scaled \<Rightarrow>
               (case models s coin_id of
                  None \<Rightarrow> Inl KeyError
                | Some m \<Rightarrow>
                    (case predict m feature_vector_scaled of
                       Inl e \<Rightarrow> Inl e
                     | Inr [] \<Rightarrow> Inl IndexError
                     | Inr (v # _) \<Rightarrow> Inr v))))"

definition forecast_prices ::
  "'sc scaler_api \<Rightarrow> 'sc service \<Rightarrow> (nat \<Rightarrow> int) \<Rightarrow> string \<Rightarrow> real \<Rightarrow> vec
     \<Rightarrow> forecast_point list" where
  "forecast_prices api s now coin_id current_price recent_prices =
     (if models s coin_id = None \<or> length recent_prices < 5
      then simple_trend_forecast now current_price recent_prices
      else
        case model_prediction api s coin_id current_price recent_prices of
          Inl e \<Rightarrow> simple_trend_forecast now current_price recent_prices
        | Inr normalized_prediction \<Rightarrow>
            let next_price_prediction = normalized_prediction * current_price
            in if normalized_prediction < 0.5 \<or> normalized_prediction > 2.0
               then simple_trend_forecast now current_price recent_prices
               else
                 let max_change_pct = 2.0;
                     max_price = current_price * (1 + max_change_pct / 100);
                     min_price = current_price * (1 - max_change_pct / 100);
                     next_price = np_clip next_price_prediction min_price max_price
                 in if \<bar>next_price - current_price\<bar> / current_price > 0.01
                    then simple_trend_forecast now current_price recent_prices
                    else model_horizon now current_price next_price)"

subsection \<open>\<open>prepare_features\<close> (lines 213-259)\<close>

definition feature_row :: "vec \<Rightarrow> nat \<Rightarrow> vec \<times> real" where
  \<comment> \<open>One iteration of the loop, lines 224-254, for
      \<open>sequence_length \<le> i < length prices\<close>: the feature vector and the target.\<close>
  "feature_row prices i =
     (let sequence = take sequence_length (drop (i - sequence_length) prices);
          current_price = prices ! (i - 1);
          price_change = prices ! i - current_price;
          price_mean = np_mean sequence;
          price_std = (if length sequence > 1 then np_std sequence else 0);
          price_trend = (if length sequence > 0 then last sequence - hd sequence else 0);
          normalized_sequence = (if current_price > 0
                                 then map (\<lambda>p. p / current_price) sequence else sequence);
          normalized_change = (if current_price > 0 then price_change / current_price else 0);
          normalized_mean = (if current_price > 0 then price_mean / current_price else 1.0);
          normalized_std = (if current_price > 0 then price_std / current_price else 0);
          normalized_trend = (if current_price > 0 then price_trend / current_price else 0);
          feature_vector = normalized_sequence
             @ [1.0, normalized_change, normalized_mean, normalized_std, normalized_trend];
          target_price = prices ! i;
          normalized_target = (if current_price > 0 then target_price / current_price else 1.0)
      in (feature_vector, normalized_target))"

definition prepare_features :: "vec option \<Rightarrow> matrix option \<times> vec option" where
  \<comment> \<open>The argument is the \<open>price_usd\<close> column of \<open>df\<close>, or \<open>None\<close> for \<open>df is None\<close>.\<close>
  "prepare_features df =
     (case df of
        None \<Rightarrow> (None, None)
      | Some prices \<Rightarrow>
          if length prices < 2 then (None, None)
          else
            let rows = map (feature_row prices) [sequence_length..<length prices];
                features = map fst rows;
                targets = map snd rows
            in if length features = 0 then (None, None)
               else (Some features, Some targets))"

subsection \<open>Fixtures for concrete runs\<close>

text \<open>
  A scaler stub whose state counts the rows it has seen and whose transform is the
  identity once a row has been seen, and a service in which no symbol has been trained.
\<close>

definition passthrough_scaler :: "nat scaler_api" where
  "passthrough_scaler =
     \<lparr>sc_new = 0,
      sc_fitted = (\<lambda>seen. seen > 0),
      sc_partial_fit = (\<lambda>seen X. Inr (seen + length X)),
      sc_fit_transform = (\<lambda>seen X. Inr (length X, X)),
      sc_transform = (\<lambda>seen X. if seen = 0 then Inl NotFittedError else Inr X)\<rparr>"

definition empty_service :: "'sc service" where
  "empty_service = \<lparr>models = Map.empty, scalers = Map.empty, price_history = Map.empty\<rparr>"

definition clock_at :: "int \<Rightarrow> nat \<Rightarrow> int" where
  \<comment> \<open>A wall clock that reads \<open>t\<close> at every iteration.\<close>
  "clock_at t i = t"

subsection \<open>The fallback's dampening law, as the specification words it and as amended\<close>

text \<open>
  The specification's step \<open>k\<close> (counted from 1) adds \<open>avg_delta * 0.7^k\<close> to the previous
  price and clamps; \<open>trend_law_spec\<close> is that recurrence. \<open>trend_law_amended\<close> adds
  \<open>avg_delta * 0.7^(k-1)\<close> instead. \<open>avg_delta_spec\<close> is the specification's average
  delta: the mean successive difference of the last \<open>min(10, n)\<close> observations, clipped
  to half a percent of the current price.
\<close>

fun trend_law_spec :: "real \<Rightarrow> real \<Rightarrow> nat \<Rightarrow> real" where
  "trend_law_spec cp d 0 = cp"
| "trend_law_spec cp d (Suc k) =
     np_clip (trend_law_spec cp d k + d * 0.7 ^ (Suc k)) (cp * 0.93) (cp * 1.07)"

fun trend_law_amended :: "real \<Rightarrow> real \<Rightarrow> nat \<Rightarrow> real" where
  "trend_law_amended cp d 0 = cp"
| "trend_law_amended cp d (Suc k) =
     np_clip (trend_law_amended cp d k + d * 0.7 ^ k) (cp * 0.93) (cp * 1.07)"

definition avg_delta_spec :: "real \<Rightarrow> vec \<Rightarrow> real" where
  "avg_delta_spec cp recent =
     np_clip (np_mean (np_diff (last_n (min 10 (length recent)) recent)))
             (- (0.005 * cp)) (0.005 * cp)"

definition worked_example :: vec where
  \<comment> \<open>The history of the specification's worked example.\<close>
  "worked_example = [100.0, 100.1, 100.2, 100.3, 100.4, 100.5, 100.6, 100.7, 100.8, 100.9]"


definition failing_scaler :: "nat scaler_api" where
  \<comment> \<open>The stub above with a transform that always raises.\<close>
  "failing_scaler = passthrough_scaler\<lparr>sc_transform := (\<lambda>seen X. Inl ValueError)\<rparr>"

definition scalar_solve :: "matrix \<Rightarrow> vec \<Rightarrow> error + vec" where
  "scalar_solve A b =
     (case (A, b) of
        ([[a]], [v]) \<Rightarrow> if a = 0 then Inl LinAlgError else Inr [v / a]
      | _ \<Rightarrow> Inl ValueError)"

definition scalar_pinv :: "matrix \<Rightarrow> error + matrix" where
  "scalar_pinv A =
     (case A of [[a]] \<Rightarrow> Inr [[if a = 0 then 0 else 1 / a]] | _ \<Rightarrow> Inl ValueError)"

definition scalar_linalg :: linalg where
  \<comment> \<open>\<open>np.linalg.solve\<close> and \<open>np.linalg.pinv\<close> on one-by-one systems, where they are a
      division; the stub covers no other shape.\<close>
  "scalar_linalg = \<lparr>solve = scalar_solve, pinv = scalar_pinv\<rparr>"

definition constant_model :: "real \<Rightarrow> regressor" where
  \<comment> \<open>A fitted regressor over the 25 inference features with zero weights and bias \<open>b\<close>:
      the state \<open>partial_fit\<close> leaves after a batch whose scaled rows are all zero and
      whose targets have mean \<open>b\<close>.\<close>
  "constant_model b =
     \<lparr>learning_rate = 0.001, regularization = 0.01, bias = b, n_samples = 1,
      params = Some \<lparr>weights = replicate 25 0, n_features = 25,
                      sum_xx = replicate 25 (replicate 25 0), sum_xy = replicate 25 0\<rparr>\<rparr>"

definition service_with :: "regressor \<Rightarrow> nat service" where
  \<comment> \<open>A service that has trained the symbol \<open>bitcoin\<close> once, with regressor \<open>m\<close>.\<close>
  "service_with m =
     \<lparr>models = [''bitcoin'' \<mapsto> m], scalers = [''bitcoin'' \<mapsto> 1],
      price_history = [''bitcoin'' \<mapsto> []]\<rparr>"

definition flat_history :: vec where
  "flat_history = [100, 100, 100, 100, 100]"

subsection \<open>The model path without its clamp\<close>

text \<open>
  The compounding recurrence of the model-based horizon expansion, with the per-step
  trend factor clipped to half a percent but without the clamp to the 7 percent band.
\<close>

fun model_law :: "real \<Rightarrow> real \<Rightarrow> nat \<Rightarrow> real" where
  "model_law cp base 0 = cp"
| "model_law cp base (Suc k) =
     model_law cp base k * (1 + np_clip (base * 0.3 ^ (Suc k)) (- 0.005) 0.005)"

definition two_symbol_service :: "regressor \<Rightarrow> nat service" where
  \<comment> \<open>As \<open>service_with m\<close>, with a second trained symbol beside it.\<close>
  "two_symbol_service m =
     \<lparr>models = [''bitcoin'' \<mapsto> m, ''ethereum'' \<mapsto> constant_model 3],
      scalers = [''bitcoin'' \<mapsto> 1, ''ethereum'' \<mapsto> 7],
      price_history = [''bitcoin'' \<mapsto> [], ''ethereum'' \<mapsto> [5]]\<rparr>"

definition price_view :: "forecast_point \<Rightarrow> nat \<times> real" where
  \<comment> \<open>A forecast point without its timestamp.\<close>
  "price_view p = (minute p, forecast_price p)"

definition rows_of_width :: "nat \<Rightarrow> matrix \<Rightarrow> bool" where
  "rows_of_width d X \<longleftrightarrow> X \<noteq> [] \<and> (\<forall>row \<in> set X. length row = d)"

definition width_scaler :: "nat option scaler_api" where
  \<comment> \<open>The input validation of \<open>StandardScaler\<close>, without the standardisation itself: a
      fit fixes the number of features, \<open>partial_fit\<close> and \<open>transform\<close> raise ValueError on a
      batch of another width, every operation raises ValueError on a batch without rows, and
      \<open>transform\<close> before any fit raises NotFittedError. The state is the number of
      features, once fitted.\<close>
  "width_scaler =
     \<lparr>sc_new = None,
      sc_fitted = (\<lambda>st. st \<noteq> None),
      sc_partial_fit = (\<lambda>st X.
         case st of
           None \<Rightarrow> if X = [] then Inl ValueError else Inr (Some (length (hd X)))
         | Some d \<Rightarrow> if rows_of_width d X then Inr (Some d) else Inl ValueError),
      sc_fit_transform = (\<lambda>st X.
         if X = [] then Inl ValueError else Inr (Some (length (hd X)), X)),
      sc_transform = (\<lambda>st X.
         case st of
           None \<Rightarrow> Inl NotFittedError
         | Some d \<Rightarrow> if rows_of_width d X then Inr X else Inl ValueError)\<rparr>"


subsection \<open>What the source relies on from \<open>np.linalg.solve\<close>\<close>






subsection \<open>Accumulators of identical rows\<close>



section \<open>Properties\<close>

subsection \<open>Clipping and the shape of the loops\<close>

lemma np_clip_band: "lo \<le> hi \<Longrightarrow> lo \<le> np_clip x lo hi \<and> np_clip x lo hi \<le> hi"
  by (simp add: np_clip_def)

lemma band_nonempty: "0 < (cp::real) \<Longrightarrow> cp * 0.93 \<le> cp * 1.07"
  by simp

lemma length_flat_loop: "length (flat_loop cp now js) = length js"
  by (induction js) simp_all

lemma length_trend_loop: "length (trend_loop cp avg now js lp) = length js"
  by (induction js arbitrary: lp) (simp_all add: Let_def)

lemma length_model_loop: "length (model_loop cp base now js lp) = length js"
  by (induction js arbitrary: lp) (simp_all add: Let_def)

lemma flat_loop_prices: "map forecast_price (flat_loop cp now js) = replicate (length js) cp"
  by (induction js) simp_all

lemma trend_loop_band:
  "0 < cp \<Longrightarrow> p \<in> set (trend_loop cp avg now js lp)
     \<Longrightarrow> cp * 0.93 \<le> forecast_price p \<and> forecast_price p \<le> cp * 1.07"
proof (induction js arbitrary: lp)
  case Nil
  then show ?case by simp
next
  case (Cons i js)
  from Cons.prems(1) have b: "cp * 0.93 \<le> cp * 1.07" by simp
  from Cons.prems(2) show ?case
    using np_clip_band [OF b] Cons.IH [OF Cons.prems(1)]
    by (auto simp: Let_def)
qed

lemma model_loop_band:
  "0 < cp \<Longrightarrow> p \<in> set (model_loop cp base now js lp)
     \<Longrightarrow> cp * 0.93 \<le> forecast_price p \<and> forecast_price p \<le> cp * 1.07"
proof (induction js arbitrary: lp)
  case Nil
  then show ?case by simp
next
  case (Cons i js)
  from Cons.prems(1) have b: "cp * 0.93 \<le> cp * 1.07" by simp
  from Cons.prems(2) show ?case
    using np_clip_band [OF b] Cons.IH [OF Cons.prems(1)]
    by (auto simp: Let_def)
qed

lemma simple_trend_forecast_band:
  assumes "0 < cp" and "p \<in> set (simple_trend_forecast now cp recent)"
  shows "cp * 0.93 \<le> forecast_price p \<and> forecast_price p \<le> cp * 1.07"
proof (cases "length recent < 3")
  case True
  with assms(2) have "forecast_price p \<in> set (map forecast_price (flat_loop cp now [0..<forecast_horizon]))"
    by (simp add: simple_trend_forecast_def)
  then have "forecast_price p = cp"
    by (simp add: flat_loop_prices)
  with assms(1) show ?thesis by simp
next
  case False
  with assms(2) have "p \<in> set (trend_loop cp (trend_avg_change cp recent) now
                            [0..<forecast_horizon] cp)"
    by (simp add: simple_trend_forecast_def)
  then show ?thesis
    by (rule trend_loop_band [OF assms(1)])
qed

lemma length_simple_trend_forecast: "length (simple_trend_forecast now cp recent) = 5"
  by (simp add: simple_trend_forecast_def length_flat_loop length_trend_loop forecast_horizon_def)

lemma length_model_horizon: "length (model_horizon now cp np) = 5"
  by (simp add: model_horizon_def length_model_loop forecast_horizon_def)

lemma forecast_prices_cases:
  "forecast_prices api s now coin cp recent = simple_trend_forecast now cp recent
   \<or> (\<exists>np. forecast_prices api s now coin cp recent = model_horizon now cp np)"
  by (auto simp: forecast_prices_def Let_def split: sum.splits)

subsection \<open>Bounded output\<close>

text \<open>
  C1. For a positive current price and any recent-price history, in any state of the
  service, a forecast call returns five points and every forecast price lies in the closed
  interval from 0.93 times to 1.07 times the current price, whichever path produced it.
\<close>

theorem forecast_prices_bounded:
  assumes "0 < current_price"
  shows "length (forecast_prices api s now coin_id current_price recent_prices) = 5
         \<and> (\<forall>p \<in> set (forecast_prices api s now coin_id current_price recent_prices).
               0.93 * current_price \<le> forecast_price p
               \<and> forecast_price p \<le> 1.07 * current_price)"
proof -
  let ?out = "forecast_prices api s now coin_id current_price recent_prices"
  consider (fallback) "?out = simple_trend_forecast now current_price recent_prices"
    | (model) np where "?out = model_horizon now current_price np"
    using forecast_prices_cases by blast
  then have len: "length ?out = 5"
    by cases (simp_all only: length_simple_trend_forecast length_model_horizon)
  have band: "current_price * 0.93 \<le> forecast_price p
              \<and> forecast_price p \<le> current_price * 1.07" if "p \<in> set ?out" for p
  proof -
    consider (fallback) "?out = simple_trend_forecast now current_price recent_prices"
      | (model) np where "?out = model_horizon now current_price np"
      using forecast_prices_cases by blast
    then show ?thesis
    proof cases
      case fallback
      with that show ?thesis
        by (simp only: simple_trend_forecast_band [OF assms])
    next
      case model
      with that have "p \<in> set (model_loop current_price
                        ((np - current_price) / current_price) now [0..<forecast_horizon]
                        current_price)"
        by (simp add: model_horizon_def)
      then show ?thesis
        by (rule model_loop_band [OF assms])
    qed
  qed
  have "0.93 * current_price \<le> forecast_price p \<and> forecast_price p \<le> 1.07 * current_price"
    if "p \<in> set ?out" for p
    using band [OF that] by (simp add: mult.commute)
  with len show ?thesis by blast
qed

theorem forecast_prices_bounded_witness:
  "(0::real) < 100
   \<and> length (forecast_prices passthrough_scaler empty_service (\<lambda>_. 0) ''bitcoin'' 100
               [100, 101, 103]) = 5
   \<and> list_all (\<lambda>p. 0.93 * 100 \<le> forecast_price p \<and> forecast_price p \<le> 1.07 * 100)
        (forecast_prices passthrough_scaler empty_service (\<lambda>_. 0) ''bitcoin'' 100
           [100, 101, 103])"
proof -
  have pos: "(0::real) < 100" by simp
  from forecast_prices_bounded [OF pos, of passthrough_scaler empty_service "\<lambda>_. 0"
                                  "''bitcoin''" "[100, 101, 103]"] pos
  show ?thesis unfolding list_all_iff by blast
qed

subsection \<open>Degenerate history\<close>

text \<open>
  C6. When the recent-price history has length 0, 1 or 2, all five returned points carry
  exactly the current price, in any state of the service.
\<close>

theorem degenerate_history_flat:
  assumes "length recent_prices < 3"
  shows "map forecast_price (forecast_prices api s now coin_id current_price recent_prices)
           = replicate 5 current_price"
  using assms
  by (simp add: forecast_prices_def simple_trend_forecast_def flat_loop_prices
                forecast_horizon_def)


theorem degenerate_history_flat_witness:
  "length [100, 101 :: real] < 3
   \<and> map forecast_price (forecast_prices passthrough_scaler empty_service (\<lambda>_. 0) ''bitcoin''
                            100 [100, 101])
       = replicate 5 100"
proof -
  have short: "length [100, 101 :: real] < 3" by simp
  from degenerate_history_flat [OF short, of passthrough_scaler empty_service "\<lambda>_. 0"
                                  "''bitcoin''" 100] short
  show ?thesis by blast
qed

subsection \<open>The dampened trend law of the fallback\<close>

lemma upt_0_5: "[0..<5] = [0, Suc 0, Suc (Suc 0), Suc (Suc (Suc 0)), Suc (Suc (Suc (Suc 0)))]"
  by code_simp

lemma upt_1_6:
  "[1..<6] = [Suc 0, Suc (Suc 0), Suc (Suc (Suc 0)), Suc (Suc (Suc (Suc 0))),
              Suc (Suc (Suc (Suc (Suc 0))))]"
  by code_simp

lemma trend_avg_change_spec: "trend_avg_change cp recent = avg_delta_spec cp recent"
  by (simp add: trend_avg_change_def avg_delta_spec_def last_n_def min_def Let_def mult.commute)

lemma trend_loop_law:
  "map forecast_price (trend_loop cp d now [j..<j + m] (trend_law_amended cp d j))
     = map (trend_law_amended cp d) [Suc j..<Suc (j + m)]"
proof (induction m arbitrary: j)
  case 0
  then show ?case by simp
next
  case (Suc m)
  have l: "[j..<j + Suc m] = j # [Suc j..<Suc j + m]"
    by (simp add: upt_conv_Cons)
  have r: "[Suc j..<Suc (j + Suc m)] = Suc j # [Suc (Suc j)..<Suc (Suc j + m)]"
    by (simp add: upt_conv_Cons)
  show ?case
    unfolding l r using Suc.IH [of "Suc j"] by (simp add: Let_def)
qed

lemma simple_trend_forecast_law:
  assumes "3 \<le> length recent_prices"
  shows "map forecast_price (simple_trend_forecast now current_price recent_prices)
           = map (trend_law_amended current_price (avg_delta_spec current_price recent_prices))
                 [1..<6]"
proof -
  have "map forecast_price (trend_loop current_price d now [0..<0 + 5]
           (trend_law_amended current_price d 0))
        = map (trend_law_amended current_price d) [Suc 0..<Suc (0 + 5)]" for d
    by (rule trend_loop_law)
  with assms show ?thesis
    by (simp add: simple_trend_forecast_def forecast_horizon_def trend_avg_change_spec)
qed

lemma worked_example_avg: "avg_delta_spec 100 worked_example = 0.1"
  by (simp add: avg_delta_spec_def worked_example_def last_n_def np_diff_def np_mean_def
                np_clip_def)

lemma worked_example_amended:
  "map (trend_law_amended 100 0.1) [1..<6] = [100.1, 100.17, 100.219, 100.2533, 100.27731]"
  unfolding upt_1_6 by (simp add: np_clip_def)

lemma worked_example_spec:
  "map (trend_law_spec 100 0.1) [1..<6] = [100.07, 100.119, 100.1533, 100.17731, 100.194117]"
  unfolding upt_1_6 by (simp add: np_clip_def)

lemma worked_example_forecast:
  "map forecast_price (simple_trend_forecast (clock_at 0) 100 worked_example)
     = [100.1, 100.17, 100.219, 100.2533, 100.27731]"
proof -
  have "3 \<le> length worked_example" by (simp add: worked_example_def)
  from simple_trend_forecast_law [OF this, of "clock_at 0" 100] show ?thesis
    by (simp only: worked_example_avg worked_example_amended)
qed

text \<open>
  C2 as stated fails. On the specification's own worked example (current price 100, the
  ten prices 100.0 to 100.9, no trained model) the code returns 100.1, 100.17, 100.219,
  100.2533, 100.27731. The first step adds the whole average delta 0.1, not 0.1 times 0.7:
  the result is not the specification's recurrence, and its first value is 0.03 away from
  the announced 100.07.
\<close>

theorem trend_law_counterexample:
  "map forecast_price (simple_trend_forecast (clock_at 0) 100 worked_example)
     = [100.1, 100.17, 100.219, 100.2533, 100.27731]
   \<and> map forecast_price (simple_trend_forecast (clock_at 0) 100 worked_example)
       \<noteq> map (trend_law_spec 100 (avg_delta_spec 100 worked_example)) [1..<6]
   \<and> \<bar>forecast_price (hd (simple_trend_forecast (clock_at 0) 100 worked_example)) - 100.07\<bar>
       = 0.03"
proof -
  have hd_eq: "forecast_price (hd (simple_trend_forecast (clock_at 0) 100 worked_example))
                 = hd (map forecast_price (simple_trend_forecast (clock_at 0) 100 worked_example))"
    by (simp add: hd_map length_simple_trend_forecast flip: length_0_conv)
  show ?thesis
    unfolding hd_eq worked_example_forecast worked_example_avg worked_example_spec
    by simp
qed

text \<open>
  C2 amended. In the trend-fallback path with at least three observations, step \<open>k\<close>
  (for k from 1 to 5) is the previous price plus the average delta times 0.7 to the power
  \<open>k - 1\<close>, then clamped to the band of 7 percent around the current price; the average
  delta is the mean successive difference over the last \<open>min(10, n)\<close> observations,
  clipped to half a percent of the current price.
\<close>

theorem trend_fallback_law:
  assumes "3 \<le> length recent_prices"
  shows "map forecast_price (simple_trend_forecast now current_price recent_prices)
           = map (trend_law_amended current_price (avg_delta_spec current_price recent_prices))
                 [1..<6]"
  using assms by (rule simple_trend_forecast_law)

theorem trend_fallback_law_witness:
  "3 \<le> length [10, 11, 12 :: real]
   \<and> map forecast_price (simple_trend_forecast (clock_at 0) 10 [10, 11, 12])
       = [10.05, 10.085, 10.1095, 10.12665, 10.138655]"
proof -
  have n: "3 \<le> length [10, 11, 12 :: real]" by simp
  have avg: "avg_delta_spec 10 [10, 11, 12] = 0.05"
    by (simp add: avg_delta_spec_def last_n_def np_diff_def np_mean_def np_clip_def)
  have vals: "map (trend_law_amended 10 0.05) [1..<6]
                = [10.05, 10.085, 10.1095, 10.12665, 10.138655]"
    unfolding upt_1_6 by (simp add: np_clip_def)
  from trend_fallback_law [OF n, of "clock_at 0" 10] n show ?thesis
    by (simp only: avg vals)
qed

subsection \<open>Feature preparation on short series\<close>

text \<open>
  C10. For every price series with fewer than \<open>sequence_length + 1\<close> rows, the empty
  series and the one-row series included, \<open>prepare_features\<close> returns the pair
  \<open>(None, None)\<close>: it neither raises nor returns empty arrays.
\<close>

theorem prepare_features_short:
  assumes "length prices < sequence_length + 1"
  shows "prepare_features (Some prices) = (None, None)"
  using assms by (simp add: prepare_features_def Let_def)

theorem prepare_features_short_witness:
  "length [100 :: real] < sequence_length + 1 \<and> prepare_features (Some [100]) = (None, None)"
proof -
  have short: "length [100 :: real] < sequence_length + 1"
    by (simp add: sequence_length_def)
  from prepare_features_short [OF short] short show ?thesis by blast
qed

subsection \<open>The one-step change-ratio feature\<close>

lemma length_window:
  assumes "sequence_length \<le> i" and "i < length prices"
  shows "length (take sequence_length (drop (i - sequence_length) prices)) = sequence_length"
  using assms by simp







subsection \<open>Scaler failure in the training path\<close>


lemma scale_features_failure_iff:
  "fst (scale_features api sc features) = Inl e \<longleftrightarrow>
     (if length features = 1 \<or> sc_fitted api sc
      then sc_partial_fit api sc features = Inl e
           \<or> (\<exists>sc1. sc_partial_fit api sc features = Inr sc1
                    \<and> sc_transform api sc1 features = Inl e)
      else sc_fit_transform api sc features = Inl e)"
  by (auto simp: scale_features_def split: sum.splits)

text \<open>
  For comparison, a run in which the scaler works: one sample with the single feature 1
  and target 1, on a symbol never seen before. The regressor is updated: with
  regularisation 0.01 the weight is \<open>1 / 1.01\<close> and the bias the residual \<open>1 - 1 / 1.01\<close>.
\<close>

lemma train_passthrough_updates:
  "fst (train_incremental_model passthrough_scaler scalar_linalg empty_service ''bitcoin''
          [[1]] [1]) = None
   \<and> models (snd (train_incremental_model passthrough_scaler scalar_linalg empty_service
                     ''bitcoin'' [[1]] [1])) ''bitcoin''
       = Some \<lparr>learning_rate = 0.001, regularization = 0.01, bias = 1 / 101, n_samples = 1,
               params = Some \<lparr>weights = [100 / 101], n_features = 1,
                               sum_xx = [[1]], sum_xy = [1]\<rparr>\<rparr>"
  by (simp add: train_incremental_model_def Let_def ensure_models_def scale_features_def
                passthrough_scaler_def empty_service_def partial_fit_def new_regressor_def
                xtx_def xty_def dot_def add_eye_def scalar_linalg_def scalar_solve_def
                matvec_def np_mean_def)



lemma train_empty_batch_raises:
  "fst (train_incremental_model width_scaler la
          empty_service ''bitcoin'' [] []) = Some ValueError"
  by (simp add: train_incremental_model_def Let_def ensure_models_def scale_features_def
                width_scaler_def empty_service_def)

text \<open>
  A scaler whose \<open>transform\<close> raises after its \<open>partial_fit\<close> has succeeded gives the same
  outcome: the exception leaves the training call and the new regressor stays unfitted.
\<close>

lemma train_failing_transform_raises:
  "fst (train_incremental_model failing_scaler scalar_linalg empty_service ''bitcoin''
          [[1]] [1]) = Some ValueError
   \<and> models (snd (train_incremental_model failing_scaler scalar_linalg empty_service
                     ''bitcoin'' [[1]] [1])) ''bitcoin''
       = Some (new_regressor 0.001 0.01)"
  by (simp add: train_incremental_model_def Let_def ensure_models_def scale_features_def
                failing_scaler_def passthrough_scaler_def empty_service_def)




subsection \<open>The model path on a fitted regressor\<close>

lemma length_inference_features: "length (inference_features cp recent) = 25"
  by (simp add: inference_features_def Let_def last_n_def sequence_length_def)

lemma dot_zero: "dot u (replicate n 0) = 0"
proof (induction u arbitrary: n)
  case Nil
  then show ?case by (simp add: dot_def)
next
  case (Cons a u)
  then show ?case by (cases n) (simp_all add: dot_def)
qed

lemma predict_constant_model:
  assumes "length x = 25"
  shows "predict (constant_model b) [x] = Inr [b]"
  using assms by (simp add: predict_def constant_model_def matvec_def dot_zero)

lemma model_prediction_constant:
  "model_prediction passthrough_scaler (service_with (constant_model b)) ''bitcoin'' cp recent
     = Inr b"
  by (simp add: model_prediction_def service_with_def passthrough_scaler_def
                predict_constant_model length_inference_features)

subsection \<open>Instability rejection\<close>

text \<open>
  C7. Whenever the regressor's predicted ratio \<open>r\<close> gives a next price
  \<open>r * current_price\<close> more than one percent away from the current price, the forecast
  call returns exactly the trend-fallback forecast: the model-derived price is not emitted.
\<close>

theorem instability_falls_back:
  assumes "model_prediction api s coin_id current_price recent_prices = Inr r"
    and "\<bar>r * current_price - current_price\<bar> / current_price > 0.01"
  shows "forecast_prices api s now coin_id current_price recent_prices
           = simple_trend_forecast now current_price recent_prices"
proof -
  have pos: "0 < current_price"
  proof (rule ccontr)
    assume "\<not> 0 < current_price"
    then have "\<bar>r * current_price - current_price\<bar> / current_price \<le> 0"
      by (simp add: divide_nonneg_nonpos)
    with assms(2) have "(0.01::real) < 0" by (rule less_le_trans)
    then show False by simp
  qed
  define x where "x = r * current_price"
  from assms(2) pos have far: "\<bar>x - current_price\<bar> > 0.01 * current_price"
    by (simp add: x_def pos_less_divide_eq)
  have "\<bar>np_clip x (current_price * (1 - 2.0 / 100)) (current_price * (1 + 2.0 / 100))
          - current_price\<bar> > 0.01 * current_price"
    using far pos by (simp add: np_clip_def min_def max_def abs_if split: if_splits)
  then have "\<bar>np_clip x (current_price * (1 - 2.0 / 100)) (current_price * (1 + 2.0 / 100))
          - current_price\<bar> / current_price > 0.01"
    using pos by (simp add: pos_less_divide_eq)
  then show ?thesis
    using assms(1) by (simp add: forecast_prices_def Let_def x_def)
qed


theorem instability_falls_back_witness:
  "model_prediction passthrough_scaler (service_with (constant_model 1.015)) ''bitcoin''
     100 flat_history = Inr 1.015
   \<and> \<bar>1.015 * 100 - 100\<bar> / 100 > (0.01::real)
   \<and> forecast_prices passthrough_scaler (service_with (constant_model 1.015)) (clock_at 0)
        ''bitcoin'' 100 flat_history
       = simple_trend_forecast (clock_at 0) 100 flat_history"
proof -
  have p: "model_prediction passthrough_scaler (service_with (constant_model 1.015))
             ''bitcoin'' 100 flat_history = Inr 1.015"
    by (rule model_prediction_constant)
  have u: "\<bar>1.015 * 100 - 100\<bar> / 100 > (0.01::real)" by simp
  from instability_falls_back [OF p u, of "clock_at 0"] p u show ?thesis by blast
qed

subsection \<open>Step size and range on the model path\<close>

lemma trend_factor_small:
  "- 0.005 \<le> np_clip x (- 0.005) 0.005 \<and> np_clip x (- 0.005) 0.005 \<le> 0.005"
  by (simp add: np_clip_def)

lemma model_law_step:
  assumes "0 < p" and "- 0.005 \<le> t" and "t \<le> (0.005::real)"
  shows "p * 0.995 \<le> p * (1 + t)" and "p * (1 + t) \<le> p * 1.005"
    and "\<bar>p * (1 + t) - p\<bar> \<le> 0.005 * p"
proof -
  from assms show "p * 0.995 \<le> p * (1 + t)" by simp
  from assms show "p * (1 + t) \<le> p * 1.005" by simp
  have "p * (1 + t) - p = p * t" by (simp add: algebra_simps)
  moreover have "\<bar>p * t\<bar> = p * \<bar>t\<bar>" using assms(1) by (simp add: abs_mult)
  moreover have "\<bar>t\<bar> \<le> 0.005" using assms(2,3) by simp
  ultimately show "\<bar>p * (1 + t) - p\<bar> \<le> 0.005 * p"
    using assms(1) by (simp add: mult.commute)
qed

lemma model_law_bounds:
  assumes "0 < cp"
  shows "cp * 0.995 ^ k \<le> model_law cp base k \<and> model_law cp base k \<le> cp * 1.005 ^ k"
proof (induction k)
  case 0
  then show ?case by simp
next
  case (Suc k)
  define t where "t = np_clip (base * 0.3 ^ (Suc k)) (- 0.005) 0.005"
  have t: "- 0.005 \<le> t" "t \<le> 0.005"
    using trend_factor_small [of "base * 0.3 ^ (Suc k)"] by (simp_all add: t_def)
  from assms have "0 < cp * 0.995 ^ k" by simp
  with Suc have p: "0 < model_law cp base k" by linarith
  have "cp * 0.995 ^ Suc k = (cp * 0.995 ^ k) * 0.995" by simp
  also have "\<dots> \<le> model_law cp base k * 0.995"
    using Suc by (intro mult_right_mono) simp_all
  also have "\<dots> \<le> model_law cp base k * (1 + t)"
    by (rule model_law_step(1) [OF p t])
  finally have lo: "cp * 0.995 ^ Suc k \<le> model_law cp base (Suc k)"
    by (simp add: t_def)
  have "model_law cp base k * (1 + t) \<le> model_law cp base k * 1.005"
    by (rule model_law_step(2) [OF p t])
  also have "\<dots> \<le> (cp * 1.005 ^ k) * 1.005"
    using Suc by (intro mult_right_mono) simp_all
  also have "\<dots> = cp * 1.005 ^ Suc k" by simp
  finally have hi: "model_law cp base (Suc k) \<le> cp * 1.005 ^ Suc k"
    by (simp add: t_def)
  from lo hi show ?case by blast
qed

lemma model_law_positive: "0 < cp \<Longrightarrow> 0 < model_law cp base k"
proof -
  assume pos: "0 < cp"
  then have "0 < cp * 0.995 ^ k" by simp
  with model_law_bounds [OF pos, of k base] show ?thesis by linarith
qed

lemma model_law_window:
  assumes "0 < cp" and "k \<le> 5"
  shows "cp * 0.995 ^ 5 \<le> model_law cp base k \<and> model_law cp base k \<le> cp * 1.005 ^ 5"
proof -
  have "(0.995::real) ^ 5 \<le> 0.995 ^ k"
    using assms(2) by (intro power_decreasing) simp_all
  then have lo: "cp * 0.995 ^ 5 \<le> cp * 0.995 ^ k"
    using assms(1) by simp
  have "(1.005::real) ^ k \<le> 1.005 ^ 5"
    using assms(2) by (intro power_increasing) simp_all
  then have hi: "cp * 1.005 ^ k \<le> cp * 1.005 ^ 5"
    using assms(1) by simp
  from lo hi model_law_bounds [OF assms(1), of k base] show ?thesis by linarith
qed

lemma model_law_in_band:
  assumes "0 < cp" and "k \<le> 5"
  shows "np_clip (model_law cp base k) (cp * 0.93) (cp * 1.07) = model_law cp base k"
proof -
  have "cp * 0.93 \<le> cp * 0.995 ^ 5" "cp * 1.005 ^ 5 \<le> cp * 1.07"
    using assms(1) by (simp_all add: power_def)
  with model_law_window [OF assms, of base] show ?thesis
    by (simp add: np_clip_def)
qed

lemma model_loop_law:
  assumes "0 < cp" and "j + m \<le> 5"
  shows "map forecast_price (model_loop cp base now [j..<j + m] (model_law cp base j))
           = map (model_law cp base) [Suc j..<Suc (j + m)]"
  using assms(2)
proof (induction m arbitrary: j)
  case 0
  then show ?case by simp
next
  case (Suc m)
  have l: "[j..<j + Suc m] = j # [Suc j..<Suc j + m]"
    by (simp add: upt_conv_Cons)
  have r: "[Suc j..<Suc (j + Suc m)] = Suc j # [Suc (Suc j)..<Suc (Suc j + m)]"
    by (simp add: upt_conv_Cons)
  from Suc.prems have "Suc j \<le> 5" "Suc j + m \<le> 5" by simp_all
  from model_law_in_band [OF assms(1) this(1), of base] Suc.IH [OF this(2)]
  show ?case
    unfolding l r by (simp add: Let_def)
qed

lemma model_horizon_law:
  assumes "0 < cp"
  shows "map forecast_price (model_horizon now cp next_price)
           = map (model_law cp ((next_price - cp) / cp)) [1..<6]"
proof -
  have "map forecast_price (model_loop cp base now [0..<0 + 5] (model_law cp base 0))
          = map (model_law cp base) [Suc 0..<Suc (0 + 5)]" for base
    by (rule model_loop_law [OF assms]) simp
  then show ?thesis
    by (simp add: model_horizon_def forecast_horizon_def Let_def)
qed


lemma forecast_prices_model_path:
  assumes "0 < current_price"
    and "models s coin_id \<noteq> None" and "5 \<le> length recent_prices"
    and "model_prediction api s coin_id current_price recent_prices = Inr r"
    and "0.5 \<le> r" and "r \<le> 2"
    and "\<bar>np_clip (r * current_price) (current_price * (1 - 2 / 100))
            (current_price * (1 + 2 / 100)) - current_price\<bar> / current_price \<le> 0.01"
  shows "forecast_prices api s now coin_id current_price recent_prices
           = model_horizon now current_price (r * current_price)"
proof -
  define x where "x = r * current_price"
  define c where "c = np_clip x (current_price * (1 - 2 / 100)) (current_price * (1 + 2 / 100))"
  from assms(7) assms(1) have near: "\<bar>c - current_price\<bar> \<le> 0.01 * current_price"
    by (simp add: c_def x_def pos_divide_le_eq)
  have cx: "c = x"
    using near assms(1) by (simp add: c_def np_clip_def min_def max_def abs_if split: if_splits)
  have gate: "\<not> \<bar>c - current_price\<bar> / current_price > 0.01"
    using assms(7) by (simp add: c_def x_def)
  have "forecast_prices api s now coin_id current_price recent_prices
          = model_horizon now current_price c"
    using assms(2-6) gate
    by (auto simp: forecast_prices_def Let_def c_def x_def)
  with cx show ?thesis by (simp add: x_def)
qed

lemma upt_0_6:
  "[0..<6] = 0 # [1..<6]"
  by (simp add: upt_conv_Cons)

text \<open>
  C9. On the model-based path (a regressor exists, at least five observations, the
  prediction succeeds, lies in the sanity band and passes the one-percent gate), with a
  positive current price: the five forecasts, preceded by the current price, are the
  unclamped compounding recurrence, so the clamp to the 7 percent band never binds; each
  step moves by at most half a percent of the previous price; and every forecast lies
  between \<open>0.995^5\<close> and \<open>1.005^5\<close> times the current price.
\<close>

theorem model_path_steps:
  assumes "0 < current_price"
    and "models s coin_id \<noteq> None" and "5 \<le> length recent_prices"
    and "model_prediction api s coin_id current_price recent_prices = Inr r"
    and "0.5 \<le> r" and "r \<le> 2"
    and "\<bar>np_clip (r * current_price) (current_price * (1 - 2 / 100))
            (current_price * (1 + 2 / 100)) - current_price\<bar> / current_price \<le> 0.01"
  shows "let ps = current_price
                  # map forecast_price
                      (forecast_prices api s now coin_id current_price recent_prices)
         in ps = map (model_law current_price (r - 1)) [0..<6]
            \<and> (\<forall>k<5. \<bar>ps ! Suc k - ps ! k\<bar> \<le> 0.005 * ps ! k
                      \<and> current_price * 0.995 ^ 5 \<le> ps ! Suc k
                      \<and> ps ! Suc k \<le> current_price * 1.005 ^ 5)"
proof -
  let ?law = "model_law current_price (r - 1)"
  let ?ps = "current_price
             # map forecast_price (forecast_prices api s now coin_id current_price recent_prices)"
  have base: "(r * current_price - current_price) / current_price = r - 1"
    using assms(1) by (simp add: field_simps)
  have "map forecast_price (forecast_prices api s now coin_id current_price recent_prices)
          = map ?law [1..<6]"
    using forecast_prices_model_path [OF assms] model_horizon_law [OF assms(1)]
    by (simp add: base)
  then have ps: "?ps = map ?law [0..<6]"
    by (simp add: upt_0_6)
  have steps: "\<bar>?ps ! Suc k - ?ps ! k\<bar> \<le> 0.005 * ?ps ! k
               \<and> current_price * 0.995 ^ 5 \<le> ?ps ! Suc k
               \<and> ?ps ! Suc k \<le> current_price * 1.005 ^ 5" if "k < 5" for k
  proof -
    from that have nth: "?ps ! k = ?law k" "?ps ! Suc k = ?law (Suc k)"
      unfolding ps by simp_all
    define t where "t = np_clip ((r - 1) * 0.3 ^ (Suc k)) (- 0.005) 0.005"
    have t: "- 0.005 \<le> t" "t \<le> 0.005"
      using trend_factor_small [of "(r - 1) * 0.3 ^ (Suc k)"] by (simp_all add: t_def)
    have "\<bar>?law k * (1 + t) - ?law k\<bar> \<le> 0.005 * ?law k"
      by (rule model_law_step(3) [OF model_law_positive [OF assms(1)] t])
    then have step: "\<bar>?law (Suc k) - ?law k\<bar> \<le> 0.005 * ?law k"
      by (simp add: t_def)
    from that have "Suc k \<le> 5" by simp
    from model_law_window [OF assms(1) this, of "r - 1"] step show ?thesis
      unfolding nth by blast
  qed
  from ps steps show ?thesis
    unfolding Let_def by blast
qed

theorem model_path_steps_witness:
  "(0::real) < 100
   \<and> models (service_with (constant_model 1.005)) ''bitcoin'' \<noteq> None
   \<and> 5 \<le> length flat_history
   \<and> model_prediction passthrough_scaler (service_with (constant_model 1.005)) ''bitcoin''
        100 flat_history = Inr 1.005
   \<and> (0.5::real) \<le> 1.005 \<and> (1.005::real) \<le> 2
   \<and> \<bar>np_clip (1.005 * 100) (100 * (1 - 2 / 100)) (100 * (1 + 2 / 100)) - 100\<bar> / 100 \<le> 0.01
   \<and> 100 # map forecast_price
              (forecast_prices passthrough_scaler (service_with (constant_model 1.005))
                 (clock_at 0) ''bitcoin'' 100 flat_history)
       = map (model_law 100 (1.005 - 1)) [0..<6]"
proof -
  have h1: "(0::real) < 100" by simp
  have h2: "models (service_with (constant_model 1.005)) ''bitcoin'' \<noteq> None"
    by (simp add: service_with_def)
  have h3: "5 \<le> length flat_history" by (simp add: flat_history_def)
  have h4: "model_prediction passthrough_scaler (service_with (constant_model 1.005))
              ''bitcoin'' 100 flat_history = Inr 1.005"
    by (rule model_prediction_constant)
  have h5: "(0.5::real) \<le> 1.005" and h6: "(1.005::real) \<le> 2" by simp_all
  have h7: "\<bar>np_clip (1.005 * 100) (100 * (1 - 2 / 100)) (100 * (1 + 2 / 100)) - 100\<bar> / 100
              \<le> 0.01"
    by (simp add: np_clip_def)
  from model_path_steps [OF h1 h2 h3 h4 h5 h6 h7, of "clock_at 0"]
  have "100 # map forecast_price
              (forecast_prices passthrough_scaler (service_with (constant_model 1.005))
                 (clock_at 0) ''bitcoin'' 100 flat_history)
        = map (model_law 100 (1.005 - 1)) [0..<6]"
    unfolding Let_def by (rule conjunct1)
  with h1 h2 h3 h4 h5 h6 h7 show ?thesis by blast
qed


subsection \<open>Determinism\<close>

lemma flat_loop_clock:
  "map price_view (flat_loop cp now1 js) = map price_view (flat_loop cp now2 js)"
  by (induction js) (simp_all add: price_view_def)

lemma trend_loop_clock:
  "map price_view (trend_loop cp d now1 js lp) = map price_view (trend_loop cp d now2 js lp)"
  by (induction js arbitrary: lp) (simp_all add: price_view_def Let_def)

lemma model_loop_clock:
  "map price_view (model_loop cp b now1 js lp) = map price_view (model_loop cp b now2 js lp)"
  by (induction js arbitrary: lp) (simp_all add: price_view_def Let_def)

lemma simple_trend_forecast_clock:
  "map price_view (simple_trend_forecast now1 cp recent)
     = map price_view (simple_trend_forecast now2 cp recent)"
  using flat_loop_clock [of cp now1 _ now2] trend_loop_clock [of cp _ now1 _ _ now2]
  by (simp add: simple_trend_forecast_def)

lemma model_horizon_clock:
  "map price_view (model_horizon now1 cp np) = map price_view (model_horizon now2 cp np)"
  using model_loop_clock [of cp _ now1 _ _ now2]
  by (simp add: model_horizon_def Let_def)

lemma flat_loop_timestamps:
  "map timestamp (flat_loop cp now js) = map (\<lambda>i. now i + minutes_delta (i + 1)) js"
  by (induction js) simp_all

lemma trend_loop_timestamps:
  "map timestamp (trend_loop cp d now js lp) = map (\<lambda>i. now i + minutes_delta (i + 1)) js"
  by (induction js arbitrary: lp) (simp_all add: Let_def)

lemma model_loop_timestamps:
  "map timestamp (model_loop cp b now js lp) = map (\<lambda>i. now i + minutes_delta (i + 1)) js"
  by (induction js arbitrary: lp) (simp_all add: Let_def)

lemma forecast_prices_timestamps:
  "map timestamp (forecast_prices api s now coin_id cp recent)
     = map (\<lambda>i. now i + minutes_delta (i + 1)) [0..<5]"
proof -
  consider (fallback) "forecast_prices api s now coin_id cp recent
                          = simple_trend_forecast now cp recent"
    | (model) np where "forecast_prices api s now coin_id cp recent = model_horizon now cp np"
    using forecast_prices_cases by blast
  then show ?thesis
  proof cases
    case fallback
    then show ?thesis
      by (simp add: simple_trend_forecast_def flat_loop_timestamps trend_loop_timestamps
                    forecast_horizon_def)
  next
    case model
    then show ?thesis
      by (simp add: model_horizon_def model_loop_timestamps forecast_horizon_def)
  qed
qed

lemma predict_reads_weights_and_bias:
  assumes "params r1 = params r2" and "bias r1 = bias r2"
  shows "predict r1 X = predict r2 X"
  unfolding predict_def assms by (rule refl)

lemma model_prediction_reads_symbol:
  assumes "models s1 coin_id = models s2 coin_id" and "scalers s1 coin_id = scalers s2 coin_id"
  shows "model_prediction api s1 coin_id cp recent = model_prediction api s2 coin_id cp recent"
  unfolding model_prediction_def assms by (rule refl)

lemma forecast_prices_paths_agree:
  assumes "models s1 coin_id = models s2 coin_id" and "scalers s1 coin_id = scalers s2 coin_id"
  shows "(forecast_prices api s1 now1 coin_id cp recent = simple_trend_forecast now1 cp recent
          \<and> forecast_prices api s2 now2 coin_id cp recent = simple_trend_forecast now2 cp recent)
         \<or> (\<exists>np. forecast_prices api s1 now1 coin_id cp recent = model_horizon now1 cp np
                \<and> forecast_prices api s2 now2 coin_id cp recent = model_horizon now2 cp np)"
  using assms(1) model_prediction_reads_symbol [OF assms, of api cp recent]
  by (auto simp: forecast_prices_def Let_def split: sum.splits)

lemma forecast_prices_view:
  assumes "models s1 coin_id = models s2 coin_id" and "scalers s1 coin_id = scalers s2 coin_id"
  shows "map price_view (forecast_prices api s1 now1 coin_id cp recent)
           = map price_view (forecast_prices api s2 now2 coin_id cp recent)"
  using forecast_prices_paths_agree [OF assms, of api now1 cp recent now2]
        simple_trend_forecast_clock [of now1 cp recent now2]
        model_horizon_clock [of now1 cp _ now2]
  by auto

text \<open>
  C8 as stated fails for the full forecast call. Two calls with the same service state,
  symbol, current price and history, made at wall-clock readings one microsecond apart,
  return different results: every returned point carries a timestamp computed from
  \<open>datetime.now()\<close>.
\<close>

theorem forecast_repeat_counterexample:
  "forecast_prices passthrough_scaler (service_with (constant_model 1.005)) (clock_at 0)
     ''bitcoin'' 100 flat_history
   \<noteq> forecast_prices passthrough_scaler (service_with (constant_model 1.005)) (clock_at 1)
       ''bitcoin'' 100 flat_history"
proof
  assume "forecast_prices passthrough_scaler (service_with (constant_model 1.005)) (clock_at 0)
            ''bitcoin'' 100 flat_history
          = forecast_prices passthrough_scaler (service_with (constant_model 1.005))
              (clock_at 1) ''bitcoin'' 100 flat_history"
  then have "map timestamp (forecast_prices passthrough_scaler
                (service_with (constant_model 1.005)) (clock_at 0) ''bitcoin'' 100 flat_history)
             = map timestamp (forecast_prices passthrough_scaler
                (service_with (constant_model 1.005)) (clock_at 1) ''bitcoin'' 100 flat_history)"
    by simp
  then show False
    unfolding forecast_prices_timestamps upt_0_5 by (simp add: clock_at_def)
qed

text \<open>
  C8 amended. \<open>predict\<close> is a function of the regressor's weights and bias and of its
  input. A forecast call is a function of the symbol's regressor, the symbol's scaler
  state, the inputs and the wall clock: two calls on states that agree on the symbol's
  regressor and scaler return the same minute offsets and forecast prices whatever the
  clock reads, and the same result when the clock reads the same; the timestamp of point
  \<open>k\<close> is the clock reading of iteration \<open>k\<close> plus \<open>k\<close> minutes.
\<close>

theorem forecast_deterministic_up_to_clock:
  assumes "models s1 coin_id = models s2 coin_id"
    and "scalers s1 coin_id = scalers s2 coin_id"
    and "params r1 = params r2" and "bias r1 = bias r2"
  shows "predict r1 X = predict r2 X
         \<and> map price_view (forecast_prices api s1 now1 coin_id current_price recent_prices)
             = map price_view (forecast_prices api s2 now2 coin_id current_price recent_prices)
         \<and> forecast_prices api s1 now1 coin_id current_price recent_prices
             = forecast_prices api s2 now1 coin_id current_price recent_prices
         \<and> map timestamp (forecast_prices api s1 now1 coin_id current_price recent_prices)
             = map (\<lambda>i. now1 i + minutes_delta (i + 1)) [0..<5]"
proof -
  have a: "predict r1 X = predict r2 X"
    using assms(3,4) by (rule predict_reads_weights_and_bias)
  have b: "map price_view (forecast_prices api s1 now1 coin_id current_price recent_prices)
             = map price_view (forecast_prices api s2 now2 coin_id current_price recent_prices)"
    using assms(1,2) by (rule forecast_prices_view)
  have c: "forecast_prices api s1 now1 coin_id current_price recent_prices
             = forecast_prices api s2 now1 coin_id current_price recent_prices"
    using forecast_prices_paths_agree [OF assms(1,2), of api now1 current_price recent_prices now1]
    by auto
  from a b c forecast_prices_timestamps [of api s1 now1 coin_id current_price recent_prices]
  show ?thesis by blast
qed

theorem forecast_deterministic_up_to_clock_witness:
  "models (service_with (constant_model 1.005)) ''bitcoin''
     = models (two_symbol_service (constant_model 1.005)) ''bitcoin''
   \<and> scalers (service_with (constant_model 1.005)) ''bitcoin''
       = scalers (two_symbol_service (constant_model 1.005)) ''bitcoin''
   \<and> params (constant_model 1.005) = params ((constant_model 1.005)\<lparr>n_samples := 7\<rparr>)
   \<and> bias (constant_model 1.005) = bias ((constant_model 1.005)\<lparr>n_samples := 7\<rparr>)
   \<and> predict (constant_model 1.005) [replicate 25 1]
       = predict ((constant_model 1.005)\<lparr>n_samples := 7\<rparr>) [replicate 25 1]
   \<and> map price_view (forecast_prices passthrough_scaler (service_with (constant_model 1.005))
                        (clock_at 0) ''bitcoin'' 100 flat_history)
       = map price_view (forecast_prices passthrough_scaler
                           (two_symbol_service (constant_model 1.005))
                           (clock_at 1) ''bitcoin'' 100 flat_history)"
proof -
  have h1: "models (service_with (constant_model 1.005)) ''bitcoin''
              = models (two_symbol_service (constant_model 1.005)) ''bitcoin''"
    by (simp add: service_with_def two_symbol_service_def)
  have h2: "scalers (service_with (constant_model 1.005)) ''bitcoin''
              = scalers (two_symbol_service (constant_model 1.005)) ''bitcoin''"
    by (simp add: service_with_def two_symbol_service_def)
  have h3: "params (constant_model 1.005) = params ((constant_model 1.005)\<lparr>n_samples := 7\<rparr>)"
    by simp
  have h4: "bias (constant_model 1.005) = bias ((constant_model 1.005)\<lparr>n_samples := 7\<rparr>)"
    by simp
  from forecast_deterministic_up_to_clock [OF h1 h2 h3 h4, of "[replicate 25 1]"
         passthrough_scaler "clock_at 0" 100 flat_history "clock_at 1"] h1 h2 h3 h4
  show ?thesis by blast
qed


subsection \<open>Fitting on identical rows\<close>





















lemma scaled_zero: "map (\<lambda>a. a * 0) (v :: real list) = replicate (length v) 0"
  by (simp add: map_replicate_const)







end
